theory Spec2Isabelle
  imports Complex_Main
begin

section \<open>TVector3: scalar and batched three-component vectors\<close>

text \<open>
  A shallow embedding of \<^verbatim>\<open>uproot_methods/classes/TVector3.py\<close>.
  Coordinates of a scalar vector are Python floats. Where a property is about the
  algebra of the expressions they are read as mathematical reals, so that rounding,
  infinities and NaN are left out; the spherical construction is also given over IEEE
  doubles, with rounding and overflow, because the round trip of the radius depends on
  them.
\<close>

subsection \<open>Exceptions\<close>

datatype py_error = NameError string | TypeError | ValueError | KeyError string | AttributeError string

text \<open>Sequencing of statements that may raise: the first exception aborts the rest.\<close>

definition bnd :: "py_error + 'a \<Rightarrow> ('a \<Rightarrow> py_error + 'b) \<Rightarrow> py_error + 'b" where
  "bnd m f = (case m of Inl e \<Rightarrow> Inl e | Inr v \<Rightarrow> f v)"

subsection \<open>Scalar vectors\<close>

text \<open>
  An instance of \<^verbatim>\<open>TVector3\<close> or of a subclass: the class it was made from
  (\<^verbatim>\<open>self.__class__\<close>) and the attributes \<^verbatim>\<open>_fX\<close>, \<^verbatim>\<open>_fY\<close>,
  \<^verbatim>\<open>_fZ\<close> set by \<^verbatim>\<open>TVector3.__init__\<close>.
\<close>

record TVector3 =
  cls :: string
  fX :: real
  fY :: real
  fZ :: real

text \<open>\<^verbatim>\<open>cls(x, y, z)\<close>: the three-argument constructor, \<^verbatim>\<open>TVector3.__init__\<close>.\<close>

definition TVector3_init :: "string \<Rightarrow> real \<Rightarrow> real \<Rightarrow> real \<Rightarrow> TVector3" where
  "TVector3_init c x y z = \<lparr>cls = c, fX = x, fY = y, fZ = z\<rparr>"

text \<open>The properties \<^verbatim>\<open>x\<close>, \<^verbatim>\<open>y\<close>, \<^verbatim>\<open>z\<close> of \<^verbatim>\<open>Methods\<close>, read together.\<close>

definition xyz :: "TVector3 \<Rightarrow> real \<times> real \<times> real" where
  "xyz v = (fX v, fY v, fZ v)"

text \<open>
  \<^verbatim>\<open>Common.dot\<close> on a scalar receiver:
  \<^verbatim>\<open>out = self.x * other.x; out += self.y * other.y; out += self.z * other.z\<close>.
\<close>

definition dot :: "TVector3 \<Rightarrow> TVector3 \<Rightarrow> real" where
  "dot self other =
     (let out = fX self * fX other;
          out = out + fY self * fY other;
          out = out + fZ self * fZ other
      in out)"

text \<open>
  \<^verbatim>\<open>Common._cross\<close>. The body only multiplies and subtracts coordinates, whatever they
  are: floats for a scalar receiver, columns for a batched one. The embedding is polymorphic
  in the same way.
\<close>

definition Common_cross ::
  "'a::{times,minus} \<times> 'a \<times> 'a \<Rightarrow> 'a \<times> 'a \<times> 'a \<Rightarrow> 'a \<times> 'a \<times> 'a" where
  "Common_cross self other =
     (case self of (sx, sy, sz) \<Rightarrow> case other of (ox, oy, oz) \<Rightarrow>
        (sy * oz - sz * oy,
         sz * ox - sx * oz,
         sx * oy - sy * ox))"

text \<open>\<^verbatim>\<open>Methods.cross\<close>: \<^verbatim>\<open>x, y, z = self._cross(other); return self.__class__(x, y, z)\<close>.\<close>

definition Methods_cross :: "TVector3 \<Rightarrow> TVector3 \<Rightarrow> TVector3" where
  "Methods_cross self other =
     (case Common_cross (xyz self) (xyz other) of (x, y, z) \<Rightarrow> TVector3_init (cls self) x y z)"

text \<open>
  Reading a name in a function body. \<^verbatim>\<open>names\<close> holds the real-valued names in scope;
  a name that is bound nowhere raises \<^verbatim>\<open>NameError\<close>.
\<close>

definition load_name :: "(string \<times> real) list \<Rightarrow> string \<Rightarrow> py_error + real" where
  "load_name names n = (case map_of names n of None \<Rightarrow> Inl (NameError n) | Some v \<Rightarrow> Inr v)"

text \<open>
  \<^verbatim>\<open>Methods.rotate_euler\<close>. Its whole body is
  \<^verbatim>\<open>return self.__class__(x, y, z)\<close>: the names \<^verbatim>\<open>x\<close>, \<^verbatim>\<open>y\<close>, \<^verbatim>\<open>z\<close>
  are read without having been assigned. The parameters are \<^verbatim>\<open>self\<close>, \<^verbatim>\<open>phi\<close>,
  \<^verbatim>\<open>theta\<close>, \<^verbatim>\<open>psi\<close>; the module binds only its imports and its five classes, and
  no builtin is called \<^verbatim>\<open>x\<close>, \<^verbatim>\<open>y\<close> or \<^verbatim>\<open>z\<close>.
\<close>

definition Methods_rotate_euler :: "TVector3 \<Rightarrow> real \<Rightarrow> real \<Rightarrow> real \<Rightarrow> py_error + TVector3" where
  "Methods_rotate_euler self phi theta psi =
     (let names = [(''phi'', phi), (''theta'', theta), (''psi'', psi)] in
      bnd (load_name names ''x'') (\<lambda>x.
      bnd (load_name names ''y'') (\<lambda>y.
      bnd (load_name names ''z'') (\<lambda>z.
      Inr (TVector3_init (cls self) x y z)))))"


definition from_cylindrical :: "string \<Rightarrow> real \<Rightarrow> real \<Rightarrow> real \<Rightarrow> TVector3" where
  "from_cylindrical c rho phi z = TVector3_init c (rho * cos phi) (rho * sin phi) z"

subsection \<open>Values of numpy expressions\<close>

text \<open>
  Modelled from the spec: the elementwise numeric primitives are an external collaborator
  (numpy), "operating uniformly over scalars or sequences". A value is a plain number or a
  one-dimensional sequence of reals; a binary operation on two sequences needs equal
  lengths, or one of length 1 that is repeated (broadcasting), and raises
  \<^verbatim>\<open>ValueError\<close> otherwise.
\<close>

datatype nd = Num real | Arr "real list"

text \<open>What evaluating an expression gives: a value, or the exception it raised.\<close>

datatype npval = Raise py_error | Val nd

fun elementwise :: "(real \<Rightarrow> real \<Rightarrow> real) \<Rightarrow> nd \<Rightarrow> nd \<Rightarrow> npval" where
  "elementwise f (Num a) (Num b) = Val (Num (f a b))"
| "elementwise f (Num a) (Arr ys) = Val (Arr (map (f a) ys))"
| "elementwise f (Arr xs) (Num b) = Val (Arr (map (\<lambda>x. f x b) xs))"
| "elementwise f (Arr xs) (Arr ys) =
     (if length xs = length ys then Val (Arr (map2 f xs ys))
      else if length xs = 1 then Val (Arr (map (f (hd xs)) ys))
      else if length ys = 1 then Val (Arr (map (\<lambda>x. f x (hd ys)) xs))
      else Raise ValueError)"

text \<open>Operands are evaluated left to right; the first exception is the result.\<close>

fun lift2 :: "(real \<Rightarrow> real \<Rightarrow> real) \<Rightarrow> npval \<Rightarrow> npval \<Rightarrow> npval" where
  "lift2 f (Raise e) b = Raise e"
| "lift2 f (Val a) (Raise e) = Raise e"
| "lift2 f (Val a) (Val b) = elementwise f a b"

fun lift1 :: "(real \<Rightarrow> real) \<Rightarrow> npval \<Rightarrow> npval" where
  "lift1 f (Raise e) = Raise e"
| "lift1 f (Val (Num a)) = Val (Num (f a))"
| "lift1 f (Val (Arr xs)) = Val (Arr (map f xs))"

instantiation npval :: "{plus, minus, times, uminus}"
begin

definition plus_npval :: "npval \<Rightarrow> npval \<Rightarrow> npval" where
  "plus_npval a b = lift2 (+) a b"

definition minus_npval :: "npval \<Rightarrow> npval \<Rightarrow> npval" where
  "minus_npval a b = lift2 (-) a b"

definition times_npval :: "npval \<Rightarrow> npval \<Rightarrow> npval" where
  "times_npval a b = lift2 (*) a b"

definition uminus_npval :: "npval \<Rightarrow> npval" where
  "uminus_npval a = lift1 uminus a"

instance ..

end

text \<open>\<^verbatim>\<open>awkward.util.numpy.cos\<close>, \<^verbatim>\<open>awkward.util.numpy.sin\<close> and \<^verbatim>\<open>v ** n\<close>.\<close>

definition np_cos :: "npval \<Rightarrow> npval" where
  "np_cos a = lift1 cos a"

definition np_sin :: "npval \<Rightarrow> npval" where
  "np_sin a = lift1 sin a"

definition np_pow :: "npval \<Rightarrow> nat \<Rightarrow> npval" where
  "np_pow a n = lift1 (\<lambda>v. v ^ n) a"

text \<open>An assignment statement \<^verbatim>\<open>name = expr\<close>: an exception of \<^verbatim>\<open>expr\<close> ends the body.\<close>

definition assign :: "npval \<Rightarrow> (npval \<Rightarrow> py_error + 'b) \<Rightarrow> py_error + 'b" where
  "assign e f = (case e of Raise err \<Rightarrow> Inl err | Val v \<Rightarrow> f (Val v))"

text \<open>
  Unpacking a returned triple \<^verbatim>\<open>x, y, z = ...\<close> whose components were evaluated in
  this order.
\<close>

definition outcomes3 :: "npval \<times> npval \<times> npval \<Rightarrow> py_error + nd \<times> nd \<times> nd" where
  "outcomes3 t =
     (case t of (x, y, z) \<Rightarrow>
        (case x of Raise e \<Rightarrow> Inl e | Val xv \<Rightarrow>
        (case y of Raise e \<Rightarrow> Inl e | Val yv \<Rightarrow>
        (case z of Raise e \<Rightarrow> Inl e | Val zv \<Rightarrow> Inr (xv, yv, zv)))))"

text \<open>\<^verbatim>\<open>len(x)\<close>: a plain number has no length.\<close>

definition py_len :: "nd \<Rightarrow> py_error + nat" where
  "py_len v = (case v of Num a \<Rightarrow> Inl TypeError | Arr xs \<Rightarrow> Inr (length xs))"

subsection \<open>The column store and the object heap\<close>

text \<open>
  Modelled from the spec: the columnar store (\<^verbatim>\<open>awkward.Table\<close> inside
  \<^verbatim>\<open>awkward.ObjectArray\<close>) is an external collaborator with "construction from a row
  count; named-column get/set with length-consistency enforcement". A table has a row
  count fixed at construction and named columns. Assigning a column needs a sequence with
  at least as many entries as the table has rows; reading a column gives its first
  \<^verbatim>\<open>tlength\<close> entries.
\<close>

record Table =
  tlength :: nat
  contents :: "string \<rightharpoonup> real list"

definition Table_getitem :: "Table \<Rightarrow> string \<Rightarrow> npval" where
  "Table_getitem t k =
     (case contents t k of
        None \<Rightarrow> Raise (KeyError k)
      | Some xs \<Rightarrow> Val (Arr (take (tlength t) xs)))"

definition Table_setitem :: "Table \<Rightarrow> string \<Rightarrow> nd \<Rightarrow> py_error + Table" where
  "Table_setitem t k v =
     (case v of
        Num a \<Rightarrow> Inl ValueError
      | Arr xs \<Rightarrow>
          if tlength t \<le> length xs then Inr (t\<lparr>contents := (contents t)(k \<mapsto> xs)\<rparr>)
          else Inl ValueError)"

text \<open>
  Batched vectors are mutable objects. The heap lists them; a reference is a position in
  the list, and a new object is put at the end.
\<close>

type_synonym ref = nat

type_synonym heap = "Table list"

definition alloc :: "heap \<Rightarrow> Table \<Rightarrow> heap \<times> ref" where
  "alloc h t = (h @ [t], length h)"

text \<open>\<^verbatim>\<open>self[k]\<close> and \<^verbatim>\<open>self[k] = v\<close> on a batched vector.\<close>

definition getitem :: "heap \<Rightarrow> ref \<Rightarrow> string \<Rightarrow> npval" where
  "getitem h r k = Table_getitem (h ! r) k"

definition setitem :: "heap \<Rightarrow> ref \<Rightarrow> string \<Rightarrow> nd \<Rightarrow> py_error + heap" where
  "setitem h r k v =
     (case Table_setitem (h ! r) k v of Inl e \<Rightarrow> Inl e | Inr t \<Rightarrow> Inr (h[r := t]))"

text \<open>
  Modelled from the spec: \<^verbatim>\<open>empty_like\<close> comes from the base capability set, which is
  not part of the source file: "new instance with same row count/dtype, uninitialized
  coordinates". The new object has the receiver's row count and no column assigned yet.
\<close>

definition empty_like :: "heap \<Rightarrow> ref \<Rightarrow> heap \<times> ref" where
  "empty_like h self = alloc h \<lparr>tlength = tlength (h ! self), contents = Map.empty\<rparr>"

subsection \<open>Batched vectors\<close>

text \<open>
  The lines \<^verbatim>\<open>out = self.empty_like(); out["fX"] = x; out["fY"] = y; out["fZ"] = z\<close>,
  which \<^verbatim>\<open>cross\<close>, \<^verbatim>\<open>rotate_axis\<close>, \<^verbatim>\<open>rotate_euler\<close> and
  \<^verbatim>\<open>__array_ufunc__\<close> each end with.
\<close>

definition new_batch :: "heap \<Rightarrow> ref \<Rightarrow> nd \<Rightarrow> nd \<Rightarrow> nd \<Rightarrow> py_error + heap \<times> ref" where
  "new_batch h self x y z =
     (case empty_like h self of (h1, out) \<Rightarrow>
        bnd (setitem h1 out ''fX'' x) (\<lambda>h2.
        bnd (setitem h2 out ''fY'' y) (\<lambda>h3.
        bnd (setitem h3 out ''fZ'' z) (\<lambda>h4.
        Inr (h4, out)))))"

text \<open>
  \<^verbatim>\<open>TVector3Array.__init__\<close>: a table of \<^verbatim>\<open>min(len(x), len(y), len(z))\<close> rows, then the
  three column assignments.
\<close>

definition TVector3Array :: "heap \<Rightarrow> nd \<Rightarrow> nd \<Rightarrow> nd \<Rightarrow> py_error + heap \<times> ref" where
  "TVector3Array h x y z =
     bnd (py_len x) (\<lambda>n1.
     bnd (py_len y) (\<lambda>n2.
     bnd (py_len z) (\<lambda>n3.
     (case alloc h \<lparr>tlength = min n1 (min n2 n3), contents = Map.empty\<rparr> of (h1, self) \<Rightarrow>
        bnd (setitem h1 self ''fX'' x) (\<lambda>h2.
        bnd (setitem h2 self ''fY'' y) (\<lambda>h3.
        bnd (setitem h3 self ''fZ'' z) (\<lambda>h4.
        Inr (h4, self))))))))"


definition Array_from_cylindrical :: "heap \<Rightarrow> 'r \<Rightarrow> nd \<Rightarrow> nd \<Rightarrow> nd \<Rightarrow> py_error + heap \<times> ref" where
  "Array_from_cylindrical h r rho phi z =
     bnd (outcomes3 (Val rho * np_cos (Val phi),
                     Val rho * np_sin (Val phi),
                     Val z))
       (\<lambda>(x, y, z). TVector3Array h x y z)"




text \<open>
  \<^verbatim>\<open>Common._rotate_euler\<close>, statement by statement. \<^verbatim>\<open>self\<close> is given by the three
  coordinate reads, which the last three statements make.
\<close>

definition Common_rotate_euler ::
  "npval \<times> npval \<times> npval \<Rightarrow> npval \<Rightarrow> npval \<Rightarrow> npval \<Rightarrow> py_error + npval \<times> npval \<times> npval" where
  "Common_rotate_euler self phi theta psi =
     (case self of (sx, sy, sz) \<Rightarrow>
      assign (np_cos phi) (\<lambda>c1.
      assign (np_sin phi) (\<lambda>s1.
      assign (np_cos theta) (\<lambda>c2.
      assign (np_sin theta) (\<lambda>s2.
      assign (np_cos psi) (\<lambda>c3.
      assign (np_sin psi) (\<lambda>s3.
      assign ((- s2) * c1) (\<lambda>fzx2.
      assign (s2 * s1) (\<lambda>fzy2.
      assign c2 (\<lambda>fzz2.
      assign (c3 * c2 * c1 - s3 * s1) (\<lambda>fxx3.
      assign ((- c3) * c2 * s1 - s3 * c1) (\<lambda>fxy3.
      assign (c3 * s2) (\<lambda>fxz3.
      assign (s3 * c2 * c1 + c3 * s1) (\<lambda>fyx3.
      assign ((- s3) * c2 * s1 + c3 * c1) (\<lambda>fyy3.
      assign (s3 * s2) (\<lambda>fyz3.
      assign (fxx3 * sx + fxy3 * sy + fxz3 * sz) (\<lambda>x.
      assign (fyx3 * sx + fyy3 * sy + fyz3 * sz) (\<lambda>y.
      assign (fzx2 * sx + fzy2 * sy + fzz2 * sz) (\<lambda>z.
      Inr (x, y, z))))))))))))))))))))"

text \<open>
  The spec's words for the Euler rotation: the rotation about the z axis by \<^verbatim>\<open>phi\<close>,
  then about the y axis by \<^verbatim>\<open>theta\<close>, then about the z axis by \<^verbatim>\<open>psi\<close>. The two
  elementary rotations, to compare the fused coefficients with:
\<close>

definition rotate_z :: "real \<Rightarrow> real \<times> real \<times> real \<Rightarrow> real \<times> real \<times> real" where
  "rotate_z a v = (case v of (x, y, z) \<Rightarrow> (cos a * x - sin a * y, sin a * x + cos a * y, z))"

definition rotate_y :: "real \<Rightarrow> real \<times> real \<times> real \<Rightarrow> real \<times> real \<times> real" where
  "rotate_y a v = (case v of (x, y, z) \<Rightarrow> (cos a * x + sin a * z, y, cos a * z - sin a * x))"




















subsection \<open>Elementwise dispatch\<close>

text \<open>
  Modelled from the spec: a ufunc is an object of the numeric layer. It is given by its
  callable attributes, looked up by name as \<^verbatim>\<open>getattr(ufunc, method)\<close> does; a call
  takes the keyword arguments and the positional inputs and returns one value or a tuple
  of values.
\<close>

datatype ures = Single nd | Tuple "nd list"

type_synonym 'k ufunc = "string \<rightharpoonup> ('k \<Rightarrow> nd list \<Rightarrow> py_error + ures)"

definition call_method :: "'k ufunc \<Rightarrow> string \<Rightarrow> nd list \<Rightarrow> 'k \<Rightarrow> py_error + ures" where
  "call_method ufunc method inputs kwargs =
     (case ufunc method of
        None \<Rightarrow> Inl (AttributeError method)
      | Some f \<Rightarrow> f kwargs inputs)"

text \<open>
  Modelled from the spec: \<^verbatim>\<open>numpy.add\<close> and \<^verbatim>\<open>numpy.multiply\<close>, of which only the
  direct call on two inputs is described.
\<close>

definition binary_ufunc :: "(real \<Rightarrow> real \<Rightarrow> real) \<Rightarrow> 'k ufunc" where
  "binary_ufunc f =
     [''__call__'' \<mapsto> (\<lambda>kwargs inputs.
        case inputs of
          [a, b] \<Rightarrow> (case elementwise f a b of Raise e \<Rightarrow> Inl e | Val v \<Rightarrow> Inr (Single v))
        | _ \<Rightarrow> Inl TypeError)]"

definition np_add :: "'k ufunc" where
  "np_add = binary_ufunc (+)"

definition np_multiply :: "'k ufunc" where
  "np_multiply = binary_ufunc (*)"

text \<open>
  An input of \<^verbatim>\<open>__array_ufunc__\<close>: a batched vector
  (\<^verbatim>\<open>isinstance(obj, ArrayMethods)\<close>) or a plain number or sequence.
\<close>

datatype operand = Vector ref | Plain nd

text \<open>What \<^verbatim>\<open>__array_ufunc__\<close> returns: \<^verbatim>\<open>None\<close>, one new batch, or a tuple of them.\<close>

datatype dispatched = NoResult | One ref | Many "ref list"

text \<open>
  The loop \<^verbatim>\<open>for obj in inputs\<close>, which appends to \<^verbatim>\<open>inputsx\<close>, \<^verbatim>\<open>inputsy\<close> and
  \<^verbatim>\<open>inputsz\<close>.
\<close>

fun split_inputs ::
  "heap \<Rightarrow> operand list \<Rightarrow> nd list \<times> nd list \<times> nd list \<Rightarrow> py_error + nd list \<times> nd list \<times> nd list" where
  "split_inputs h [] acc = Inr acc"
| "split_inputs h (Vector r # rest) (inputsx, inputsy, inputsz) =
     assign (getitem h r ''fX'') (\<lambda>x.
     assign (getitem h r ''fY'') (\<lambda>y.
     assign (getitem h r ''fZ'') (\<lambda>z.
     bnd (outcomes3 (x, y, z)) (\<lambda>(xv, yv, zv).
     split_inputs h rest (inputsx @ [xv], inputsy @ [yv], inputsz @ [zv])))))"
| "split_inputs h (Plain v # rest) (inputsx, inputsy, inputsz) =
     split_inputs h rest (inputsx @ [v], inputsy @ [v], inputsz @ [v])"

text \<open>The loop \<^verbatim>\<open>for x, y, z in zip(resultx, resulty, resultz)\<close>.\<close>

fun pack_all :: "heap \<Rightarrow> ref \<Rightarrow> (nd \<times> nd \<times> nd) list \<Rightarrow> ref list \<Rightarrow> py_error + heap \<times> ref list" where
  "pack_all h self [] out = Inr (h, out)"
| "pack_all h self ((x, y, z) # rest) out =
     bnd (new_batch h self x y z) (\<lambda>(h', r). pack_all h' self rest (out @ [r]))"

text \<open>A result assigned as a column; a tuple of outputs is not a coordinate sequence.\<close>

definition as_column :: "ures \<Rightarrow> py_error + nd" where
  "as_column r = (case r of Single v \<Rightarrow> Inr v | Tuple vs \<Rightarrow> Inl ValueError)"

text \<open>
  \<^verbatim>\<open>ArrayMethods.__array_ufunc__\<close>. The first statement is
  \<^verbatim>\<open>if method != "__call__": raise NotImplemented\<close>. \<^verbatim>\<open>NotImplemented\<close> is a constant,
  not an exception class, so the \<^verbatim>\<open>raise\<close> statement itself fails with
  \<^verbatim>\<open>TypeError\<close> (exceptions must derive from \<^verbatim>\<open>BaseException\<close>).
\<close>

definition array_ufunc ::
  "heap \<Rightarrow> ref \<Rightarrow> 'k ufunc \<Rightarrow> string \<Rightarrow> operand list \<Rightarrow> 'k \<Rightarrow> py_error + heap \<times> dispatched" where
  "array_ufunc h self ufunc method inputs kwargs =
     (if method \<noteq> ''__call__'' then Inl TypeError
      else
        bnd (split_inputs h inputs ([], [], [])) (\<lambda>(inputsx, inputsy, inputsz).
        bnd (call_method ufunc method inputsx kwargs) (\<lambda>resultx.
        bnd (call_method ufunc method inputsy kwargs) (\<lambda>resulty.
        bnd (call_method ufunc method inputsz kwargs) (\<lambda>resultz.
        (case (resultx, resulty, resultz) of
           (Tuple xs, Tuple ys, Tuple zs) \<Rightarrow>
             bnd (pack_all h self (zip xs (zip ys zs)) []) (\<lambda>(h', out). Inr (h', Many out))
         | _ \<Rightarrow>
             if method = ''at'' then Inr (h, NoResult)
             else
               bnd (as_column resultx) (\<lambda>x.
               bnd (as_column resulty) (\<lambda>y.
               bnd (as_column resultz) (\<lambda>z.
               bnd (new_batch h self x y z) (\<lambda>(h', out). Inr (h', One out)))))))))))"

subsection \<open>The invariant of a batched vector\<close>


subsection \<open>Rendering\<close>

text \<open>
  \<^verbatim>\<open>Methods.__repr__\<close> formats each coordinate with \<^verbatim>\<open>"{0:.4g}"\<close>. The general
  format is a builtin of the language; it is modelled here from the language reference
  (format specification mini-language, presentation type \<^verbatim>\<open>g\<close>): for a precision
  \<^verbatim>\<open>p\<close> the number is rounded to \<^verbatim>\<open>p\<close> significant digits, ties going to the even
  digit; with \<^verbatim>\<open>exp\<close> the decimal exponent of the rounded number, it is written in
  fixed-point notation when \<^verbatim>\<open>-4 \<le> exp < p\<close> and in scientific notation otherwise;
  trailing zeros of the fraction are removed, and the point with them when no digit is
  left after it. A float is a rational number, so the exact value of every finite float is
  covered; infinities, NaN and the negative zero are not.
\<close>

text \<open>Rounding to the nearest integer, a tie going to the even one.\<close>

definition round_half_even :: "real \<Rightarrow> int" where
  "round_half_even x =
     (let f = \<lfloor>x\<rfloor>; d = x - of_int f
      in if d < 1 / 2 then f else if 1 / 2 < d then f + 1 else if even f then f else f + 1)"

text \<open>
  A positive number brought between 1 and 10 by powers of ten, with the decimal exponent
  counted.
\<close>

function scale10 :: "real \<Rightarrow> int \<Rightarrow> real \<times> int" where
  "scale10 a e =
     (if 10 \<le> a then scale10 (a / 10) (e + 1)
      else if 0 < a \<and> a < 1 then scale10 (a * 10) (e - 1)
      else (a, e))"
  by pat_completeness auto
termination
proof (relation "measure (\<lambda>(a, e). nat \<bar>\<lfloor>log 10 a\<rfloor>\<bar>)")
  show "wf (measure (\<lambda>(a, e). nat \<bar>\<lfloor>log 10 a\<rfloor>\<bar>))" by simp
next
  fix a :: real and e :: int
  assume a: "10 \<le> a"
  then have "log 10 (a / 10) = log 10 a - 1"
    by (simp add: log_divide)
  moreover from a have "1 \<le> log 10 a"
    using log_le_cancel_iff [of 10 10 a] by simp
  then have "1 \<le> \<lfloor>log 10 a\<rfloor>" by linarith
  ultimately show "((a / 10, e + 1), (a, e)) \<in> measure (\<lambda>(a, e). nat \<bar>\<lfloor>log 10 a\<rfloor>\<bar>)"
    by simp
next
  fix a :: real and e :: int
  assume "\<not> 10 \<le> a" and a: "0 < a \<and> a < 1"
  then have "log 10 (a * 10) = log 10 a + 1"
    by (simp add: log_mult)
  moreover from a have "log 10 a < 0" by simp
  then have "\<lfloor>log 10 a\<rfloor> \<le> - 1" by linarith
  ultimately show "((a * 10, e - 1), (a, e)) \<in> measure (\<lambda>(a, e). nat \<bar>\<lfloor>log 10 a\<rfloor>\<bar>)"
    by simp
qed

text \<open>The last \<^verbatim>\<open>p\<close> decimal digits of \<^verbatim>\<open>m\<close>, the most significant first.\<close>

fun fixed_digits :: "nat \<Rightarrow> nat \<Rightarrow> nat list" where
  "fixed_digits 0 m = []"
| "fixed_digits (Suc p) m = fixed_digits p (m div 10) @ [m mod 10]"

text \<open>
  The \<^verbatim>\<open>p\<close> significant digits of a positive number and the decimal exponent of the
  rounded number; rounding \<^verbatim>\<open>9.9995\<close> up carries into the exponent.
\<close>

definition significand :: "nat \<Rightarrow> real \<Rightarrow> nat list \<times> int" where
  "significand p a =
     (case scale10 a 0 of (a', e) \<Rightarrow>
        let m = nat (round_half_even (a' * 10 ^ (p - 1)))
        in if m = 10 ^ p then (fixed_digits p (10 ^ (p - 1)), e + 1)
           else (fixed_digits p m, e))"

text \<open>Digits as characters; a fraction without its trailing zeros, behind its point.\<close>

definition digit_char :: "nat \<Rightarrow> char" where
  "digit_char d = ''0123456789'' ! (d mod 10)"

definition strip_zeros :: "nat list \<Rightarrow> nat list" where
  "strip_zeros ds = rev (dropWhile (\<lambda>d. d = 0) (rev ds))"

definition point_fraction :: "nat list \<Rightarrow> string" where
  "point_fraction ds =
     (let fp = strip_zeros ds in if fp = [] then [] else CHR ''.'' # map digit_char fp)"

text \<open>The exponent of the scientific notation: a sign and at least two digits.\<close>

fun decimal :: "nat \<Rightarrow> string" where
  "decimal n = (if n < 10 then [digit_char n] else decimal (n div 10) @ [digit_char (n mod 10)])"

definition exponent_suffix :: "int \<Rightarrow> string" where
  "exponent_suffix e =
     CHR ''e'' # (if e < 0 then CHR ''-'' else CHR ''+'') #
     (if \<bar>e\<bar> < 10 then CHR ''0'' # decimal (nat \<bar>e\<bar>) else decimal (nat \<bar>e\<bar>))"

text \<open>\<^verbatim>\<open>format(v, ".{p}g")\<close> for a precision \<^verbatim>\<open>p \<ge> 1\<close>.\<close>

definition format_g :: "nat \<Rightarrow> real \<Rightarrow> string" where
  "format_g p v =
     (if v = 0 then ''0''
      else
        (case significand p \<bar>v\<bar> of (ds, e) \<Rightarrow>
           (if v < 0 then ''-'' else []) @
           (if - 4 \<le> e \<and> e < int p then
              (if 0 \<le> e then
                 map digit_char (take (nat e + 1) ds) @ point_fraction (drop (nat e + 1) ds)
               else
                 ''0.'' @ replicate (nat (- e - 1)) (CHR ''0'') @ map digit_char (strip_zeros ds))
            else
              map digit_char (take 1 ds) @ point_fraction (drop 1 ds) @ exponent_suffix e)))"

text \<open>The digits a string writes before any exponent, from the first that is not zero.\<close>

definition mantissa_digits :: "string \<Rightarrow> string" where
  "mantissa_digits s =
     dropWhile (\<lambda>c. c = CHR ''0'')
       (filter (\<lambda>c. c \<noteq> CHR ''-'' \<and> c \<noteq> CHR ''.'')
          (takeWhile (\<lambda>c. c \<noteq> CHR ''e'') s))"

text \<open>
  \<^verbatim>\<open>Methods.__repr__\<close> (the class defines it twice, with the same body) and
  \<^verbatim>\<open>Methods.__str__\<close>, which returns \<^verbatim>\<open>repr(self)\<close>. Both only read the coordinates.
\<close>

definition Methods_repr :: "TVector3 \<Rightarrow> string" where
  "Methods_repr self =
     ''TVector3('' @ format_g 4 (fX self) @ '', '' @ format_g 4 (fY self) @ '', '' @
     format_g 4 (fZ self) @ '')''"

definition Methods_str :: "TVector3 \<Rightarrow> string" where
  "Methods_str self = Methods_repr self"

subsection \<open>Floating-point coordinates\<close>

text \<open>
  A Python float is an IEEE 754 binary64 number: a finite value, one of the two infinities
  (\<open>Infinity True\<close> is the negative one) or a NaN. The sign of a zero is not kept.
\<close>

datatype double = Finite real | Infinity bool | NaN

text \<open>
  A positive number brought between 1 and 2 by powers of two, with the binary exponent
  counted.
\<close>

function scale2 :: "real \<Rightarrow> int \<Rightarrow> real \<times> int" where
  "scale2 a e =
     (if 2 \<le> a then scale2 (a / 2) (e + 1)
      else if 0 < a \<and> a < 1 then scale2 (a * 2) (e - 1)
      else (a, e))"
  by pat_completeness auto
termination
proof (relation "measure (\<lambda>(a, e). nat \<bar>\<lfloor>log 2 a\<rfloor>\<bar>)")
  show "wf (measure (\<lambda>(a, e). nat \<bar>\<lfloor>log 2 a\<rfloor>\<bar>))" by simp
next
  fix a :: real and e :: int
  assume a: "2 \<le> a"
  then have "log 2 (a / 2) = log 2 a - 1"
    by (simp add: log_divide)
  moreover from a have "1 \<le> log 2 a"
    using log_le_cancel_iff [of 2 2 a] by simp
  then have "1 \<le> \<lfloor>log 2 a\<rfloor>" by linarith
  ultimately show "((a / 2, e + 1), (a, e)) \<in> measure (\<lambda>(a, e). nat \<bar>\<lfloor>log 2 a\<rfloor>\<bar>)"
    by simp
next
  fix a :: real and e :: int
  assume "\<not> 2 \<le> a" and a: "0 < a \<and> a < 1"
  then have "log 2 (a * 2) = log 2 a + 1"
    by (simp add: log_mult)
  moreover from a have "log 2 a < 0" by simp
  then have "\<lfloor>log 2 a\<rfloor> \<le> - 1" by linarith
  ultimately show "((a * 2, e - 1), (a, e)) \<in> measure (\<lambda>(a, e). nat \<bar>\<lfloor>log 2 a\<rfloor>\<bar>)"
    by simp
qed

text \<open>
  The rounding of an exact result to a double, in the default mode (to nearest, ties to
  even). A value of binary exponent \<open>e\<close> is rounded to a multiple of \<open>2 ^ (e - 52)\<close>, which
  leaves 53 significant bits; below the exponent \<open>-1022\<close> the spacing stays
  \<open>2 ^ (-1074)\<close> (subnormal numbers, and underflow to zero); a rounded value that
  reaches \<open>2 ^ 1024\<close> overflows to the infinity of its sign.
\<close>

definition fl :: "real \<Rightarrow> double" where
  "fl x =
     (if x = 0 then Finite 0
      else
        (case scale2 \<bar>x\<bar> 0 of (m, e) \<Rightarrow>
           let e' = max e (- 1022);
               q = (if 52 \<le> e' then 2 ^ nat (e' - 52) else 1 / 2 ^ nat (52 - e'));
               y = of_int (round_half_even (\<bar>x\<bar> / q)) * q
           in if 2 ^ 1024 \<le> y then Infinity (x < 0)
              else Finite (if x < 0 then - y else y)))"









subsection \<open>Example data\<close>

text \<open>
  The batches that the concrete instances below are taken at: two batches of two rows and
  one of a single row.
\<close>

definition example_batch :: Table where
  "example_batch = \<lparr>tlength = 2, contents = [''fX'' \<mapsto> [1, 2], ''fY'' \<mapsto> [3, 4], ''fZ'' \<mapsto> [5, 6]]\<rparr>"

definition other_batch :: Table where
  "other_batch = \<lparr>tlength = 2, contents = [''fX'' \<mapsto> [10, 20], ''fY'' \<mapsto> [30, 40], ''fZ'' \<mapsto> [50, 60]]\<rparr>"

definition one_row_batch :: Table where
  "one_row_batch = \<lparr>tlength = 1, contents = [''fX'' \<mapsto> [1], ''fY'' \<mapsto> [2], ''fZ'' \<mapsto> [3]]\<rparr>"



section \<open>Properties\<close>

lemma bnd_Inl [simp]: "bnd (Inl e) f = Inl e"
  by (simp add: bnd_def)

lemma bnd_Inr [simp]: "bnd (Inr v) f = f v"
  by (simp add: bnd_def)

text \<open>
  C7. For all real coordinate triples, \<^verbatim>\<open>dot\<close> is commutative and every component of
  \<^verbatim>\<open>_cross(a, b)\<close> is the negation of the same component of \<^verbatim>\<open>_cross(b, a)\<close>.
\<close>

theorem dot_commutes_cross_anticommutes:
  fixes a b :: TVector3
  shows "dot a b = dot b a \<and>
         fst (Common_cross (xyz a) (xyz b)) = - fst (Common_cross (xyz b) (xyz a)) \<and>
         fst (snd (Common_cross (xyz a) (xyz b))) = - fst (snd (Common_cross (xyz b) (xyz a))) \<and>
         snd (snd (Common_cross (xyz a) (xyz b))) = - snd (snd (Common_cross (xyz b) (xyz a)))"
  by (simp add: dot_def Common_cross_def xyz_def Let_def mult.commute)

subsection \<open>Scalar Euler rotation\<close>

text \<open>
  C1. The claim is that \<^verbatim>\<open>v.rotate_euler(phi, theta, psi)\<close> returns a new scalar vector
  of the class of \<^verbatim>\<open>v\<close> holding the fused Euler rotation of its coordinates. The method
  never calls \<^verbatim>\<open>_rotate_euler\<close>: it reads the unbound name \<^verbatim>\<open>x\<close> and raises
  \<^verbatim>\<open>NameError\<close> on every input.
\<close>

theorem rotate_euler_raises_NameError:
  "Methods_rotate_euler self phi theta psi = Inl (NameError ''x'')"
  by (simp add: Methods_rotate_euler_def load_name_def)

subsection \<open>The guard of the elementwise dispatch\<close>

lemma array_ufunc_guard:
  "method \<noteq> ''__call__'' \<Longrightarrow> array_ufunc h self ufunc method inputs kwargs = Inl TypeError"
  by (simp add: array_ufunc_def)

text \<open>
  C2. The claim is that an invocation with a method other than \<^verbatim>\<open>"__call__"\<close> signals
  "not implemented". At \<^verbatim>\<open>numpy.add.reduce\<close> on a batch of one row the statement
  \<^verbatim>\<open>raise NotImplemented\<close> is run, and what is raised is \<^verbatim>\<open>TypeError\<close>.
\<close>

theorem array_ufunc_reduce_TypeError:
  "array_ufunc [one_row_batch] 0
     (np_add :: unit ufunc) ''reduce'' [Vector 0] () = Inl TypeError"
  by (simp add: array_ufunc_def)

text \<open>
  C3. The claim is that an invocation with the method \<^verbatim>\<open>"at"\<close> returns \<^verbatim>\<open>None\<close>
  rather than raising. The source has the branch for it,
  \<^verbatim>\<open>elif method == "at": return None\<close>, but the guard at the top of
  \<^verbatim>\<open>__array_ufunc__\<close>, which lets only \<^verbatim>\<open>"__call__"\<close> through, runs first: at
  \<^verbatim>\<open>numpy.add.at(v, [0], 1)\<close> on a batch of one row the call raises, and does not
  return \<^verbatim>\<open>None\<close>.
\<close>

theorem array_ufunc_at_raises:
  "array_ufunc [one_row_batch] 0
     (np_add :: unit ufunc) ''at'' [Vector 0, Plain (Arr [0]), Plain (Num 1)] () = Inl TypeError \<and>
   array_ufunc [one_row_batch] 0
     (np_add :: unit ufunc) ''at'' [Vector 0, Plain (Arr [0]), Plain (Num 1)] ()
   \<noteq> Inr ([one_row_batch], NoResult)"
  by (simp add: array_ufunc_def)


subsection \<open>Cross product\<close>

text \<open>
  C5. For real coordinates, \<^verbatim>\<open>_cross\<close> returns
  \<^verbatim>\<open>(a.y*b.z - a.z*b.y, a.z*b.x - a.x*b.z, a.x*b.y - a.y*b.x)\<close>, and the scalar
  \<^verbatim>\<open>cross\<close> returns an instance of the class of the receiver built from these three
  components.
\<close>

theorem cross_components:
  fixes ax ay az bx by' bz :: real and a b :: TVector3
  shows "Common_cross (ax, ay, az) (bx, by', bz) =
           (ay * bz - az * by', az * bx - ax * bz, ax * by' - ay * bx) \<and>
         Methods_cross a b =
           \<lparr>cls = cls a,
            fX = fY a * fZ b - fZ a * fY b,
            fY = fZ a * fX b - fX a * fZ b,
            fZ = fX a * fY b - fY a * fX b\<rparr>"
  by (simp add: Common_cross_def Methods_cross_def xyz_def TVector3_init_def)

subsection \<open>Evaluating numpy expressions and column assignments\<close>

lemma assign_Val [simp]: "assign (Val v) f = f (Val v)"
  by (simp add: assign_def)

lemma assign_Raise [simp]: "assign (Raise e) f = Inl e"
  by (simp add: assign_def)

lemma outcomes3_Val [simp]: "outcomes3 (Val x, Val y, Val z) = Inr (x, y, z)"
  by (simp add: outcomes3_def)

lemma outcomes3_eq_Inr:
  "outcomes3 t = Inr (x, y, z) \<longleftrightarrow> t = (Val x, Val y, Val z)"
  by (cases t) (auto simp: outcomes3_def split: npval.splits)

lemma np_binop_simps:
  "Val (Num a) + Val (Num b) = Val (Num (a + b))"
  "Val (Num a) - Val (Num b) = Val (Num (a - b))"
  "Val (Num a) * Val (Num b) = Val (Num (a * b))"
  "Val (Num a) + Val (Arr ys) = Val (Arr (map ((+) a) ys))"
  "Val (Num a) - Val (Arr ys) = Val (Arr (map ((-) a) ys))"
  "Val (Num a) * Val (Arr ys) = Val (Arr (map ((*) a) ys))"
  "Val (Arr xs) + Val (Num b) = Val (Arr (map (\<lambda>x. x + b) xs))"
  "Val (Arr xs) - Val (Num b) = Val (Arr (map (\<lambda>x. x - b) xs))"
  "Val (Arr xs) * Val (Num b) = Val (Arr (map (\<lambda>x. x * b) xs))"
  by (simp_all add: plus_npval_def minus_npval_def times_npval_def)

lemma np_binop_same_length:
  assumes "length xs = length ys"
  shows "Val (Arr xs) + Val (Arr ys) = Val (Arr (map2 (+) xs ys))"
    and "Val (Arr xs) - Val (Arr ys) = Val (Arr (map2 (-) xs ys))"
    and "Val (Arr xs) * Val (Arr ys) = Val (Arr (map2 (*) xs ys))"
  using assms by (simp_all add: plus_npval_def minus_npval_def times_npval_def)

lemma np_unop_simps:
  "np_cos (Val (Num a)) = Val (Num (cos a))"
  "np_sin (Val (Num a)) = Val (Num (sin a))"
  "np_cos (Val (Arr xs)) = Val (Arr (map cos xs))"
  "np_sin (Val (Arr xs)) = Val (Arr (map sin xs))"
  "- Val (Num a) = Val (Num (- a))"
  "- Val (Arr xs) = Val (Arr (map uminus xs))"
  "np_pow (Val (Num a)) n = Val (Num (a ^ n))"
  "np_pow (Val (Arr xs)) n = Val (Arr (map (\<lambda>v. v ^ n) xs))"
  by (simp_all add: np_cos_def np_sin_def uminus_npval_def np_pow_def)

lemma TVector3Array_arrays:
  "TVector3Array h (Arr xs) (Arr ys) (Arr zs) =
     Inr (h @ [\<lparr>tlength = min (length xs) (min (length ys) (length zs)),
                contents = [''fX'' \<mapsto> xs, ''fY'' \<mapsto> ys, ''fZ'' \<mapsto> zs]\<rparr>], length h)"
  by (simp add: TVector3Array_def py_len_def alloc_def setitem_def Table_setitem_def min.coboundedI1 min.coboundedI2)

lemma Table_getitem_columns:
  "Table_getitem \<lparr>tlength = n, contents = [''fX'' \<mapsto> xs, ''fY'' \<mapsto> ys, ''fZ'' \<mapsto> zs]\<rparr> ''fX'' = Val (Arr (take n xs))"
  "Table_getitem \<lparr>tlength = n, contents = [''fX'' \<mapsto> xs, ''fY'' \<mapsto> ys, ''fZ'' \<mapsto> zs]\<rparr> ''fY'' = Val (Arr (take n ys))"
  "Table_getitem \<lparr>tlength = n, contents = [''fX'' \<mapsto> xs, ''fY'' \<mapsto> ys, ''fZ'' \<mapsto> zs]\<rparr> ''fZ'' = Val (Arr (take n zs))"
  by (simp_all add: Table_getitem_def)

subsection \<open>The Euler rotation kernel\<close>

text \<open>
  The kernel itself is the fused rotation: on numbers, \<^verbatim>\<open>_rotate_euler\<close> is the rotation
  about z by \<^verbatim>\<open>phi\<close>, then about y by \<^verbatim>\<open>theta\<close>, then about z by \<^verbatim>\<open>psi\<close>. The batched
  \<^verbatim>\<open>rotate_euler\<close> calls it; the scalar one does not.
\<close>

lemma Common_rotate_euler_fused:
  "Common_rotate_euler (Val (Num x), Val (Num y), Val (Num z)) (Val (Num phi)) (Val (Num theta)) (Val (Num psi)) =
     (case rotate_z psi (rotate_y theta (rotate_z phi (x, y, z))) of
        (x', y', z') \<Rightarrow> Inr (Val (Num x'), Val (Num y'), Val (Num z')))"
  by (simp add: Common_rotate_euler_def rotate_z_def rotate_y_def np_unop_simps np_binop_simps algebra_simps)

subsection \<open>Batched cylindrical construction\<close>

text \<open>
  C10. The batched \<^verbatim>\<open>from_cylindrical\<close> takes \<^verbatim>\<open>(r, rho, phi, z)\<close> and its result does
  not depend on \<^verbatim>\<open>r\<close>, whatever the other arguments are; for sequences of one length it
  is the new batch with the columns \<^verbatim>\<open>rho * cos(phi)\<close>, \<^verbatim>\<open>rho * sin(phi)\<close> and \<^verbatim>\<open>z\<close>.
\<close>

theorem from_cylindrical_ignores_r:
  "Array_from_cylindrical h r1 rho phi z = Array_from_cylindrical h r2 rho phi z \<and>
   (length rhos = length phis \<and> length phis = length zs \<longrightarrow>
      (\<exists>t. Array_from_cylindrical h r1 (Arr rhos) (Arr phis) (Arr zs) = Inr (h @ [t], length h) \<and>
           tlength t = length zs \<and>
           Table_getitem t ''fX'' = Val (Arr (map2 (\<lambda>\<rho> \<phi>. \<rho> * cos \<phi>) rhos phis)) \<and>
           Table_getitem t ''fY'' = Val (Arr (map2 (\<lambda>\<rho> \<phi>. \<rho> * sin \<phi>) rhos phis)) \<and>
           Table_getitem t ''fZ'' = Val (Arr zs)))"
proof (intro conjI impI)
  show "Array_from_cylindrical h r1 rho phi z = Array_from_cylindrical h r2 rho phi z"
    by (simp add: Array_from_cylindrical_def)
next
  assume len: "length rhos = length phis \<and> length phis = length zs"
  have x: "Val (Arr rhos) * np_cos (Val (Arr phis)) = Val (Arr (map2 (*) rhos (map cos phis)))"
    using len by (simp add: np_unop_simps np_binop_same_length)
  have y: "Val (Arr rhos) * np_sin (Val (Arr phis)) = Val (Arr (map2 (*) rhos (map sin phis)))"
    using len by (simp add: np_unop_simps np_binop_same_length)
  have mc: "map2 (*) rhos (map cos phis) = map2 (\<lambda>\<rho> \<phi>. \<rho> * cos \<phi>) rhos phis"
    by (auto simp: zip_map2)
  have ms: "map2 (*) rhos (map sin phis) = map2 (\<lambda>\<rho> \<phi>. \<rho> * sin \<phi>) rhos phis"
    by (auto simp: zip_map2)
  show "\<exists>t. Array_from_cylindrical h r1 (Arr rhos) (Arr phis) (Arr zs) = Inr (h @ [t], length h) \<and>
           tlength t = length zs \<and>
           Table_getitem t ''fX'' = Val (Arr (map2 (\<lambda>\<rho> \<phi>. \<rho> * cos \<phi>) rhos phis)) \<and>
           Table_getitem t ''fY'' = Val (Arr (map2 (\<lambda>\<rho> \<phi>. \<rho> * sin \<phi>) rhos phis)) \<and>
           Table_getitem t ''fZ'' = Val (Arr zs)"
    using len
    by (simp add: Array_from_cylindrical_def x y mc ms TVector3Array_arrays Table_getitem_columns)
qed

text \<open>The same at two rows, with \<^verbatim>\<open>r = 0\<close> and \<^verbatim>\<open>r = 7\<close>.\<close>

theorem from_cylindrical_ignores_r_witness:
  "Array_from_cylindrical [] (0::real) (Arr [1, 2]) (Arr [0, 0]) (Arr [5, 6]) =
     Array_from_cylindrical [] (7::real) (Arr [1, 2]) (Arr [0, 0]) (Arr [5, 6]) \<and>
   length [1, 2 :: real] = length [0, 0 :: real] \<and> length [0, 0 :: real] = length [5, 6 :: real] \<and>
   (\<exists>t. Array_from_cylindrical [] (0::real) (Arr [1, 2]) (Arr [0, 0]) (Arr [5, 6]) = Inr ([t], 0) \<and>
        tlength t = 2 \<and>
        Table_getitem t ''fX'' = Val (Arr [1, 2]) \<and>
        Table_getitem t ''fY'' = Val (Arr [0, 0]) \<and>
        Table_getitem t ''fZ'' = Val (Arr [5, 6]))"
proof -
  note inst = from_cylindrical_ignores_r [of "[]" "0::real" "Arr [1, 2]" "Arr [0, 0]" "Arr [5, 6]"
      "7::real" "[1, 2]" "[0, 0]" "[5, 6]"]
  have indep: "Array_from_cylindrical [] (0::real) (Arr [1, 2]) (Arr [0, 0]) (Arr [5, 6]) =
     Array_from_cylindrical [] (7::real) (Arr [1, 2]) (Arr [0, 0]) (Arr [5, 6])"
    using inst by (rule conjunct1)
  have cols: "\<exists>t. Array_from_cylindrical [] (0::real) (Arr [1, 2]) (Arr [0, 0]) (Arr [5, 6]) = Inr ([t], 0) \<and>
        tlength t = 2 \<and>
        Table_getitem t ''fX'' = Val (Arr [1, 2]) \<and>
        Table_getitem t ''fY'' = Val (Arr [0, 0]) \<and>
        Table_getitem t ''fZ'' = Val (Arr [5, 6])"
    using conjunct2 [OF inst] by (simp add: numeral_2_eq_2)
  show ?thesis
    by (intro conjI) (rule indep, simp, simp, rule cols)
qed

subsection \<open>Spherical construction\<close>





text \<open>The same construction on doubles, at a power of two on the z axis.\<close>

declare scale2.simps [simp del]




lemma round_half_even_int: "round_half_even (of_int n) = n"
  by (simp add: round_half_even_def)












subsection \<open>Elementwise addition and scaling\<close>

lemma new_batch_arrays:
  assumes "tlength (h ! self) \<le> length xs" and "tlength (h ! self) \<le> length ys"
    and "tlength (h ! self) \<le> length zs"
  shows "new_batch h self (Arr xs) (Arr ys) (Arr zs) =
     Inr (h @ [\<lparr>tlength = tlength (h ! self),
                contents = [''fX'' \<mapsto> xs, ''fY'' \<mapsto> ys, ''fZ'' \<mapsto> zs]\<rparr>], length h)"
  using assms
  by (simp add: new_batch_def empty_like_def alloc_def setitem_def Table_setitem_def)

lemma getitem_append:
  "r < length h \<Longrightarrow> getitem (h @ [t]) r k = getitem h r k"
  by (simp add: getitem_def nth_append)

lemma call_binary_ufunc:
  "call_method (binary_ufunc f) ''__call__'' [a, b] kwargs =
     (case elementwise f a b of Raise e \<Rightarrow> Inl e | Val v \<Rightarrow> Inr (Single v))"
  by (simp add: call_method_def binary_ufunc_def)

text \<open>
  C4. Let \<^verbatim>\<open>a\<close> and \<^verbatim>\<open>b\<close> be batched vectors of \<^verbatim>\<open>n\<close> rows with the columns
  \<^verbatim>\<open>(x1, y1, z1)\<close> and \<^verbatim>\<open>(x2, y2, z2)\<close>. Dispatching \<^verbatim>\<open>numpy.add\<close> on
  \<^verbatim>\<open>(a, b)\<close> returns a new object, put after every object of the heap, whose columns are
  the elementwise sums; dispatching \<^verbatim>\<open>numpy.multiply\<close> on \<^verbatim>\<open>a\<close> and a plain number
  \<^verbatim>\<open>s\<close> returns a new object whose columns are those of \<^verbatim>\<open>a\<close> times \<^verbatim>\<open>s\<close>. In the
  heap after the call the columns of the operands read as before.
\<close>

theorem dispatch_add_multiply:
  assumes "a < length h" and "b < length h" and "tlength (h ! a) = n"
    and "getitem h a ''fX'' = Val (Arr x1)" and "getitem h a ''fY'' = Val (Arr y1)"
    and "getitem h a ''fZ'' = Val (Arr z1)"
    and "getitem h b ''fX'' = Val (Arr x2)" and "getitem h b ''fY'' = Val (Arr y2)"
    and "getitem h b ''fZ'' = Val (Arr z2)"
    and "length x1 = n" and "length y1 = n" and "length z1 = n"
    and "length x2 = n" and "length y2 = n" and "length z2 = n"
  shows "(\<exists>t. array_ufunc h a np_add ''__call__'' [Vector a, Vector b] kwargs
                = Inr (h @ [t], One (length h)) \<and>
              tlength t = n \<and>
              Table_getitem t ''fX'' = Val (Arr (map2 (+) x1 x2)) \<and>
              Table_getitem t ''fY'' = Val (Arr (map2 (+) y1 y2)) \<and>
              Table_getitem t ''fZ'' = Val (Arr (map2 (+) z1 z2)) \<and>
              getitem (h @ [t]) a ''fX'' = Val (Arr x1) \<and> getitem (h @ [t]) a ''fY'' = Val (Arr y1) \<and>
              getitem (h @ [t]) a ''fZ'' = Val (Arr z1) \<and>
              getitem (h @ [t]) b ''fX'' = Val (Arr x2) \<and> getitem (h @ [t]) b ''fY'' = Val (Arr y2) \<and>
              getitem (h @ [t]) b ''fZ'' = Val (Arr z2)) \<and>
         (\<exists>t. array_ufunc h a np_multiply ''__call__'' [Vector a, Plain (Num s)] kwargs
                = Inr (h @ [t], One (length h)) \<and>
              tlength t = n \<and>
              Table_getitem t ''fX'' = Val (Arr (map (\<lambda>v. v * s) x1)) \<and>
              Table_getitem t ''fY'' = Val (Arr (map (\<lambda>v. v * s) y1)) \<and>
              Table_getitem t ''fZ'' = Val (Arr (map (\<lambda>v. v * s) z1)) \<and>
              getitem (h @ [t]) a ''fX'' = Val (Arr x1) \<and> getitem (h @ [t]) a ''fY'' = Val (Arr y1) \<and>
              getitem (h @ [t]) a ''fZ'' = Val (Arr z1))"
proof (intro conjI)
  let ?t = "\<lparr>tlength = n, contents = [''fX'' \<mapsto> map2 (+) x1 x2, ''fY'' \<mapsto> map2 (+) y1 y2,
                                       ''fZ'' \<mapsto> map2 (+) z1 z2]\<rparr>"
  have "array_ufunc h a np_add ''__call__'' [Vector a, Vector b] kwargs = Inr (h @ [?t], One (length h))"
    using assms
    by (simp add: array_ufunc_def np_add_def call_binary_ufunc as_column_def new_batch_arrays)
  moreover have "Table_getitem ?t ''fX'' = Val (Arr (map2 (+) x1 x2))"
    "Table_getitem ?t ''fY'' = Val (Arr (map2 (+) y1 y2))"
    "Table_getitem ?t ''fZ'' = Val (Arr (map2 (+) z1 z2))"
    using assms by (simp_all add: Table_getitem_columns)
  ultimately show "\<exists>t. array_ufunc h a np_add ''__call__'' [Vector a, Vector b] kwargs
                = Inr (h @ [t], One (length h)) \<and>
              tlength t = n \<and>
              Table_getitem t ''fX'' = Val (Arr (map2 (+) x1 x2)) \<and>
              Table_getitem t ''fY'' = Val (Arr (map2 (+) y1 y2)) \<and>
              Table_getitem t ''fZ'' = Val (Arr (map2 (+) z1 z2)) \<and>
              getitem (h @ [t]) a ''fX'' = Val (Arr x1) \<and> getitem (h @ [t]) a ''fY'' = Val (Arr y1) \<and>
              getitem (h @ [t]) a ''fZ'' = Val (Arr z1) \<and>
              getitem (h @ [t]) b ''fX'' = Val (Arr x2) \<and> getitem (h @ [t]) b ''fY'' = Val (Arr y2) \<and>
              getitem (h @ [t]) b ''fZ'' = Val (Arr z2)"
    using assms by (intro exI [where x = ?t]) (simp add: getitem_append)
next
  let ?t = "\<lparr>tlength = n, contents = [''fX'' \<mapsto> map (\<lambda>v. v * s) x1, ''fY'' \<mapsto> map (\<lambda>v. v * s) y1,
                                       ''fZ'' \<mapsto> map (\<lambda>v. v * s) z1]\<rparr>"
  have "array_ufunc h a np_multiply ''__call__'' [Vector a, Plain (Num s)] kwargs
          = Inr (h @ [?t], One (length h))"
    using assms
    by (simp add: array_ufunc_def np_multiply_def call_binary_ufunc as_column_def new_batch_arrays)
  moreover have "Table_getitem ?t ''fX'' = Val (Arr (map (\<lambda>v. v * s) x1))"
    "Table_getitem ?t ''fY'' = Val (Arr (map (\<lambda>v. v * s) y1))"
    "Table_getitem ?t ''fZ'' = Val (Arr (map (\<lambda>v. v * s) z1))"
    using assms by (simp_all add: Table_getitem_columns)
  ultimately show "\<exists>t. array_ufunc h a np_multiply ''__call__'' [Vector a, Plain (Num s)] kwargs
                = Inr (h @ [t], One (length h)) \<and>
              tlength t = n \<and>
              Table_getitem t ''fX'' = Val (Arr (map (\<lambda>v. v * s) x1)) \<and>
              Table_getitem t ''fY'' = Val (Arr (map (\<lambda>v. v * s) y1)) \<and>
              Table_getitem t ''fZ'' = Val (Arr (map (\<lambda>v. v * s) z1)) \<and>
              getitem (h @ [t]) a ''fX'' = Val (Arr x1) \<and> getitem (h @ [t]) a ''fY'' = Val (Arr y1) \<and>
              getitem (h @ [t]) a ''fZ'' = Val (Arr z1)"
    using assms by (intro exI [where x = ?t]) (simp add: getitem_append)
qed

text \<open>Two batches of two rows, and the factor 2.\<close>

theorem dispatch_add_multiply_witness:
  "(\<exists>t. array_ufunc [example_batch, other_batch] 0 np_add ''__call__'' [Vector 0, Vector 1] ()
        = Inr ([example_batch, other_batch, t], One 2) \<and>
        tlength t = 2 \<and>
        Table_getitem t ''fX'' = Val (Arr [11, 22]) \<and>
        Table_getitem t ''fY'' = Val (Arr [33, 44]) \<and>
        Table_getitem t ''fZ'' = Val (Arr [55, 66])) \<and>
   (\<exists>t. array_ufunc [example_batch, other_batch] 0 np_multiply ''__call__'' [Vector 0, Plain (Num 2)] ()
        = Inr ([example_batch, other_batch, t], One 2) \<and>
        tlength t = 2 \<and>
        Table_getitem t ''fX'' = Val (Arr [2, 4]) \<and>
        Table_getitem t ''fY'' = Val (Arr [6, 8]) \<and>
        Table_getitem t ''fZ'' = Val (Arr [10, 12]))"
  using dispatch_add_multiply [where a = 0 and b = 1 and n = 2 and s = 2 and kwargs = "()"
      and h = "[example_batch, other_batch]"
      and ?x1.0 = "[1, 2]" and ?y1.0 = "[3, 4]" and ?z1.0 = "[5, 6]"
      and ?x2.0 = "[10, 20]" and ?y2.0 = "[30, 40]" and ?z2.0 = "[50, 60]"]
  by (simp add: getitem_def Table_getitem_def example_batch_def other_batch_def numeral_2_eq_2)

subsection \<open>Row counts\<close>

























subsection \<open>Rendering\<close>

declare scale10.simps [simp del]
declare decimal.simps [simp del]

lemma scale10_done: "1 \<le> a \<Longrightarrow> a < 10 \<Longrightarrow> scale10 a e = (a, e)"
  by (subst scale10.simps) simp

lemma scale10_down: "10 \<le> a \<Longrightarrow> scale10 a e = scale10 (a / 10) (e + 1)"
  by (subst scale10.simps) simp

lemma scale10_up: "0 < a \<Longrightarrow> a < 1 \<Longrightarrow> scale10 a e = scale10 (a * 10) (e - 1)"
  by (subst scale10.simps) simp

lemma fixed_digits_numeral:
  "fixed_digits (numeral k) m = fixed_digits (pred_numeral k) (m div 10) @ [m mod 10]"
  by (simp only: numeral_eq_Suc fixed_digits.simps)

lemma round_half_even_1000: "round_half_even 1000 = 1000"
  by (simp add: round_half_even_def)

lemma scale10_one: "scale10 1 0 = (1, 0)"
  by (simp add: scale10_done)

lemma significand_int:
  assumes "1 \<le> a" and "a < 10" and "a * 1000 = of_int n" and "n \<noteq> 10000"
  shows "significand 4 a = (fixed_digits 4 (nat n), 0)"
proof -
  have "nat n \<noteq> 10 ^ 4"
  proof
    assume "nat n = 10 ^ 4"
    moreover have "0 \<le> n" using assms(1,3) by (smt (verit) of_int_nonneg mult_nonneg_nonneg of_int_0_le_iff)
    ultimately show False using assms(4) by simp
  qed
  then show ?thesis
    using assms by (simp add: significand_def scale10_done round_half_even_int)
qed

lemma fmt_1: "format_g 4 1 = ''1''"
  by (simp add: format_g_def significand_int [where n = 1000] fixed_digits_numeral
      digit_char_def point_fraction_def strip_zeros_def)

lemma fmt_2: "format_g 4 2 = ''2''"
  by (simp add: format_g_def significand_int [where n = 2000] fixed_digits_numeral
      digit_char_def point_fraction_def strip_zeros_def)

lemma fmt_3: "format_g 4 3 = ''3''"
  by (simp add: format_g_def significand_int [where n = 3000] fixed_digits_numeral
      digit_char_def point_fraction_def strip_zeros_def)

lemma fmt_neg2: "format_g 4 (- 2) = ''-2''"
  by (simp add: format_g_def significand_int [where n = 2000] fixed_digits_numeral
      digit_char_def point_fraction_def strip_zeros_def)

lemma significand_unit:
  assumes "1 \<le> a" and "a < 10" and "round_half_even (a * 1000) = n" and "n \<noteq> 10000" and "0 \<le> n"
  shows "significand 4 a = (fixed_digits 4 (nat n), 0)"
proof -
  have "nat n \<noteq> 10 ^ 4"
    using assms(4,5) by auto
  then show ?thesis
    using assms by (simp add: significand_def scale10_done)
qed

lemma replicate_numeral: "replicate (numeral k) x = x # replicate (pred_numeral k) x"
  by (simp add: numeral_eq_Suc)

lemma fmt_123456: "format_g 4 1.23456 = ''1.235''"
proof -
  have r: "round_half_even (1.23456 * 1000) = 1235"
    by (simp add: round_half_even_def)
  have "significand 4 1.23456 = (fixed_digits 4 (nat 1235), 0)"
    by (rule significand_unit [OF _ _ r]) simp_all
  then have sig: "significand 4 \<bar>1.23456\<bar> = ([1, 2, 3, 5], 0)"
    by (simp add: fixed_digits_numeral)
  show ?thesis
    unfolding format_g_def sig
    by (simp add: digit_char_def point_fraction_def strip_zeros_def)
qed

lemma scale_tenthousandth: "scale10 0.0001 0 = (1, - 4)"
proof -
  have "scale10 0.0001 0 = scale10 0.001 (- 1)"
    by (simp add: scale10_up)
  also have "\<dots> = scale10 0.01 (- 2)"
    by (simp add: scale10_up)
  also have "\<dots> = scale10 0.1 (- 3)"
    by (simp add: scale10_up)
  also have "\<dots> = scale10 1 (- 4)"
    by (simp add: scale10_up)
  also have "\<dots> = (1, - 4)"
    by (simp add: scale10_done)
  finally show ?thesis .
qed

lemma fmt_tenthousandth: "format_g 4 0.0001 = ''0.0001''"
proof -
  have "significand 4 0.0001 = ([1, 0, 0, 0], - 4)"
    unfolding significand_def scale_tenthousandth
    by (simp add: round_half_even_1000 fixed_digits_numeral)
  then have sig: "significand 4 \<bar>0.0001\<bar> = ([1, 0, 0, 0], - 4)"
    by simp
  show ?thesis
    unfolding format_g_def sig
    by (simp add: digit_char_def strip_zeros_def replicate_numeral)
qed

lemma length_fixed_digits: "length (fixed_digits p m) = p"
  by (induction p arbitrary: m) simp_all

lemma length_significand: "significand p a = (ds, e) \<Longrightarrow> length ds = p"
  by (auto simp: significand_def Let_def length_fixed_digits split: prod.splits if_splits)

lemma digit_char_in: "digit_char d \<in> set ''0123456789''"
proof -
  have "d mod 10 < length ''0123456789''" by simp
  then show ?thesis
    unfolding digit_char_def by (rule nth_mem)
qed

lemma digit_char_plain:
  "digit_char d \<noteq> CHR ''e''" "digit_char d \<noteq> CHR ''-''" "digit_char d \<noteq> CHR ''.''"
  using digit_char_in [of d] by auto

lemma length_strip_zeros: "length (strip_zeros ds) \<le> length ds"
  using length_dropWhile_le [of "\<lambda>d. d = 0" "rev ds"] by (simp add: strip_zeros_def)

lemma takeWhile_digits:
  "takeWhile (\<lambda>c. c \<noteq> CHR ''e'') (map digit_char ds @ r) =
     map digit_char ds @ takeWhile (\<lambda>c. c \<noteq> CHR ''e'') r"
  by (rule takeWhile_append2) (auto simp: digit_char_plain)

lemma filter_digits:
  "filter (\<lambda>c. c \<noteq> CHR ''-'' \<and> c \<noteq> CHR ''.'') (map digit_char ds) = map digit_char ds"
  by (induction ds) (simp_all add: digit_char_plain)

lemma takeWhile_point_fraction:
  "takeWhile (\<lambda>c. c \<noteq> CHR ''e'') (point_fraction ds @ r) =
     point_fraction ds @ takeWhile (\<lambda>c. c \<noteq> CHR ''e'') r"
  by (simp add: point_fraction_def Let_def takeWhile_digits)

lemma filter_point_fraction:
  "filter (\<lambda>c. c \<noteq> CHR ''-'' \<and> c \<noteq> CHR ''.'') (point_fraction ds) = map digit_char (strip_zeros ds)"
  by (simp add: point_fraction_def Let_def filter_digits)

lemma takeWhile_exponent_suffix: "takeWhile (\<lambda>c. c \<noteq> CHR ''e'') (exponent_suffix e) = []"
  by (simp add: exponent_suffix_def)

lemma mantissa_digits_dash: "mantissa_digits (CHR ''-'' # s) = mantissa_digits s"
  by (simp add: mantissa_digits_def)

lemma mantissa_split:
  assumes "rest = [] \<or> rest = exponent_suffix e"
  shows "length (mantissa_digits (map digit_char (take k ds) @ point_fraction (drop k ds) @ rest)) \<le> length ds"
proof -
  have tw: "takeWhile (\<lambda>c. c \<noteq> CHR ''e'') rest = []"
    using assms by (auto simp: takeWhile_exponent_suffix)
  have "length (mantissa_digits (map digit_char (take k ds) @ point_fraction (drop k ds) @ rest))
        \<le> length (map digit_char (take k ds) @ map digit_char (strip_zeros (drop k ds)))"
    unfolding mantissa_digits_def takeWhile_digits takeWhile_point_fraction tw
    by (simp only: append_Nil2 filter_append filter_digits filter_point_fraction length_dropWhile_le)
  also have "\<dots> \<le> length (take k ds) + length (drop k ds)"
    using length_strip_zeros [of "drop k ds"] by simp
  also have "\<dots> = length ds" by simp
  finally show ?thesis .
qed

lemma mantissa_small:
  "length (mantissa_digits (''0.'' @ replicate n (CHR ''0'') @ map digit_char (strip_zeros ds))) \<le> length ds"
proof -
  have tw: "takeWhile (\<lambda>c. c \<noteq> CHR ''e'') (''0.'' @ replicate n (CHR ''0'') @ map digit_char (strip_zeros ds))
        = ''0.'' @ replicate n (CHR ''0'') @ map digit_char (strip_zeros ds)"
    by (rule takeWhile_eq_all_conv [THEN iffD2]) (auto simp: digit_char_plain digit_char_plain [symmetric])
  have fl: "filter (\<lambda>c. c \<noteq> CHR ''-'' \<and> c \<noteq> CHR ''.'') (''0.'' @ replicate n (CHR ''0'') @ map digit_char (strip_zeros ds))
        = (CHR ''0'' # replicate n (CHR ''0'')) @ map digit_char (strip_zeros ds)"
    by (simp add: filter_digits)
  have dw: "dropWhile (\<lambda>c. c = CHR ''0'') ((CHR ''0'' # replicate n (CHR ''0'')) @ map digit_char (strip_zeros ds))
        = dropWhile (\<lambda>c. c = CHR ''0'') (map digit_char (strip_zeros ds))"
    by (rule dropWhile_append2) auto
  have "length (mantissa_digits (''0.'' @ replicate n (CHR ''0'') @ map digit_char (strip_zeros ds)))
        \<le> length (map digit_char (strip_zeros ds))"
    unfolding mantissa_digits_def tw fl dw by (rule length_dropWhile_le)
  also have "\<dots> \<le> length ds"
    using length_strip_zeros [of ds] by simp
  finally show ?thesis .
qed

lemma format_g_digits: "length (mantissa_digits (format_g 4 v)) \<le> 4"
proof (cases "v = 0")
  case True
  then show ?thesis by (simp add: format_g_def mantissa_digits_def)
next
  case False
  obtain ds e where sig: "significand 4 \<bar>v\<bar> = (ds, e)"
    by (cases "significand 4 \<bar>v\<bar>") auto
  then have len: "length ds = 4" by (rule length_significand)
  define body where "body =
     (if - 4 \<le> e \<and> e < int 4 then
        (if 0 \<le> e then
           map digit_char (take (nat e + 1) ds) @ point_fraction (drop (nat e + 1) ds)
         else
           ''0.'' @ replicate (nat (- e - 1)) (CHR ''0'') @ map digit_char (strip_zeros ds))
      else
        map digit_char (take 1 ds) @ point_fraction (drop 1 ds) @ exponent_suffix e)"
  have body_le: "length (mantissa_digits body) \<le> length ds"
    unfolding body_def
    using mantissa_split [of "[]" e "nat e + 1" ds] mantissa_split [of "exponent_suffix e" e 1 ds]
      mantissa_small [of "nat (- e - 1)" ds]
    by (simp del: append_assoc)
  have fmt: "format_g 4 v = (if v < 0 then ''-'' else []) @ body"
    using False by (simp add: format_g_def sig body_def)
  have "mantissa_digits (format_g 4 v) = mantissa_digits body"
    unfolding fmt by (simp add: mantissa_digits_dash)
  then show ?thesis using body_le len by simp
qed

lemma repr_example:
  "Methods_repr \<lparr>cls = c, fX = 1.23456, fY = - 2, fZ = 0.0001\<rparr> = ''TVector3(1.235, -2, 0.0001)''"
  unfolding Methods_repr_def TVector3.select_convs fmt_123456 fmt_neg2 fmt_tenthousandth
  by simp

text \<open>
  C9, as stated: every coordinate is rendered with exactly 4 significant digits, as in
  \<^verbatim>\<open>Vector3(1.000, 2.000, 3.000)\<close>. The vector \<^verbatim>\<open>(1.0, 2.0, 3.0)\<close> is rendered as
  \<^verbatim>\<open>TVector3(1, 2, 3)\<close>, with one significant digit for each coordinate.
\<close>

theorem repr_four_digits_counterexample:
  "Methods_repr \<lparr>cls = ''TVector3'', fX = 1, fY = 2, fZ = 3\<rparr> = ''TVector3(1, 2, 3)'' \<and>
   length (mantissa_digits (format_g 4 1)) = 1"
  by (simp add: Methods_repr_def fmt_1 fmt_2 fmt_3 mantissa_digits_def)

text \<open>
  C9, amended: the rendering is \<^verbatim>\<open>TVector3(\<close>, the three coordinates in the general
  format of precision 4 separated by a comma and a space, and \<^verbatim>\<open>)\<close>. Each coordinate is
  written with at most 4 significant digits, trailing zeros being dropped: the vector
  \<^verbatim>\<open>(1.23456, -2.0, 0.0001)\<close> is rendered as \<^verbatim>\<open>TVector3(1.235, -2, 0.0001)\<close>.
  \<^verbatim>\<open>__str__\<close> gives the same text, and the text depends on the three coordinates only,
  not on the class, so that rendering an unmodified vector again gives the same string.
\<close>

theorem repr_general_format:
  "Methods_repr v =
     ''TVector3('' @ format_g 4 (fX v) @ '', '' @ format_g 4 (fY v) @ '', '' @
     format_g 4 (fZ v) @ '')'' \<and>
   length (mantissa_digits (format_g 4 (fX v))) \<le> 4 \<and>
   length (mantissa_digits (format_g 4 (fY v))) \<le> 4 \<and>
   length (mantissa_digits (format_g 4 (fZ v))) \<le> 4 \<and>
   Methods_str v = Methods_repr v \<and>
   Methods_repr (v\<lparr>cls := c\<rparr>) = Methods_repr v \<and>
   Methods_repr \<lparr>cls = c, fX = 1.23456, fY = - 2, fZ = 0.0001\<rparr> = ''TVector3(1.235, -2, 0.0001)''"
  using format_g_digits [of "fX v"] format_g_digits [of "fY v"] format_g_digits [of "fZ v"]
    repr_example [of c]
  by (simp add: Methods_repr_def Methods_str_def)

end
